theory Spec2Isabelle
  imports Main "HOL-Library.Word"
begin

section \<open>Go values shared by both packages\<close>

text \<open>
  A Go byte slice is a list of HOL characters (a \<^typ>\<open>char\<close> is one byte). A Go result of
  type \<^verbatim>\<open>error\<close> is \<^typ>\<open>string option\<close>, \<^term>\<open>None\<close> being \<^verbatim>\<open>nil\<close>. A run-time panic
  is a value of its own: a function that may panic returns \<open>panic + 'a\<close>.
\<close>

type_synonym bytes = string

type_synonym go_error = "string option"

datatype panic = TypeAssertionFailed | IndexOutOfRange

section \<open>Package httpkit: the status table\<close>

subsection \<open>Constants of the imported packages\<close>

text \<open>
  \<^verbatim>\<open>codes.Code\<close> is a \<^verbatim>\<open>uint32\<close>. The seventeen named codes are the constants of the
  package \<^verbatim>\<open>google.golang.org/grpc/codes\<close>, which follow \<^verbatim>\<open>google/rpc/code.proto\<close>; the
  statuses are the constants of \<^verbatim>\<open>net/http\<close>. Neither package is part of the repository.
\<close>

type_synonym Code = "32 word"

definition codes_OK :: Code where "codes_OK = 0"
definition codes_Canceled :: Code where "codes_Canceled = 1"
definition codes_Unknown :: Code where "codes_Unknown = 2"
definition codes_InvalidArgument :: Code where "codes_InvalidArgument = 3"
definition codes_DeadlineExceeded :: Code where "codes_DeadlineExceeded = 4"
definition codes_NotFound :: Code where "codes_NotFound = 5"
definition codes_AlreadyExists :: Code where "codes_AlreadyExists = 6"
definition codes_PermissionDenied :: Code where "codes_PermissionDenied = 7"
definition codes_ResourceExhausted :: Code where "codes_ResourceExhausted = 8"
definition codes_FailedPrecondition :: Code where "codes_FailedPrecondition = 9"
definition codes_Aborted :: Code where "codes_Aborted = 10"
definition codes_OutOfRange :: Code where "codes_OutOfRange = 11"
definition codes_Unimplemented :: Code where "codes_Unimplemented = 12"
definition codes_Internal :: Code where "codes_Internal = 13"
definition codes_Unavailable :: Code where "codes_Unavailable = 14"
definition codes_DataLoss :: Code where "codes_DataLoss = 15"
definition codes_Unauthenticated :: Code where "codes_Unauthenticated = 16"

definition StatusOK :: int where "StatusOK = 200"
definition StatusBadRequest :: int where "StatusBadRequest = 400"
definition StatusUnauthorized :: int where "StatusUnauthorized = 401"
definition StatusForbidden :: int where "StatusForbidden = 403"
definition StatusNotFound :: int where "StatusNotFound = 404"
definition StatusRequestTimeout :: int where "StatusRequestTimeout = 408"
definition StatusConflict :: int where "StatusConflict = 409"
definition StatusTooManyRequests :: int where "StatusTooManyRequests = 429"
definition StatusInternalServerError :: int where "StatusInternalServerError = 500"
definition StatusNotImplemented :: int where "StatusNotImplemented = 501"
definition StatusServiceUnavailable :: int where "StatusServiceUnavailable = 503"
definition StatusGatewayTimeout :: int where "StatusGatewayTimeout = 504"

subsection \<open>httpStatusFromCode\<close>

text \<open>
  The \<^verbatim>\<open>switch\<close> of the source, one branch per \<^verbatim>\<open>case\<close> in the order of the source, and
  the \<^verbatim>\<open>return\<close> after the switch as the last branch.
\<close>

definition httpStatusFromCode :: "Code \<Rightarrow> int" where
  "httpStatusFromCode code =
     (if code = codes_OK then StatusOK
      else if code = codes_Canceled then StatusRequestTimeout
      else if code = codes_Unknown then StatusInternalServerError
      else if code = codes_InvalidArgument then StatusBadRequest
      else if code = codes_DeadlineExceeded then StatusGatewayTimeout
      else if code = codes_NotFound then StatusNotFound
      else if code = codes_AlreadyExists then StatusConflict
      else if code = codes_PermissionDenied then StatusForbidden
      else if code = codes_Unauthenticated then StatusUnauthorized
      else if code = codes_ResourceExhausted then StatusTooManyRequests
      else if code = codes_FailedPrecondition then StatusBadRequest
      else if code = codes_Aborted then StatusConflict
      else if code = codes_OutOfRange then StatusBadRequest
      else if code = codes_Unimplemented then StatusNotImplemented
      else if code = codes_Internal then StatusInternalServerError
      else if code = codes_Unavailable then StatusServiceUnavailable
      else if code = codes_DataLoss then StatusInternalServerError
      else StatusInternalServerError)"

section \<open>Package httpkit: HttpError\<close>

text \<open>
  \<^verbatim>\<open>http.Header\<close> and the \<^verbatim>\<open>headers\<close> field are Go maps from a name to a list of values.
  The encoder ranges over such a map, so it is an association list, in the order of the
  iteration; a \<^verbatim>\<open>nil\<close> map reads like the empty one and is the empty list. The payload is
  an \<^verbatim>\<open>interface{}\<close>: its type is a parameter.
\<close>

type_synonym Header = "(string \<times> string list) list"

record 'p HttpError =
  status :: int
  headers :: Header
  payload :: 'p

definition NewHttpError :: "int \<Rightarrow> 'p \<Rightarrow> Header \<Rightarrow> 'p HttpError" where
  "NewHttpError code p h = \<lparr>status = code, headers = h, payload = p\<rparr>"

definition HttpError_Error :: "'p HttpError \<Rightarrow> string" where
  "HttpError_Error h = ''HttpError''"

definition HttpError_StatusCode :: "'p HttpError \<Rightarrow> int" where
  "HttpError_StatusCode h = status h"

definition HttpError_Headers :: "'p HttpError \<Rightarrow> Header" where
  "HttpError_Headers h = headers h"

text \<open>\<^verbatim>\<open>json.Marshal\<close> of the standard library is a parameter of \<^verbatim>\<open>MarshalJSON\<close>.\<close>

definition HttpError_MarshalJSON ::
  "('p \<Rightarrow> bytes \<times> go_error) \<Rightarrow> 'p HttpError \<Rightarrow> bytes \<times> go_error" where
  "HttpError_MarshalJSON json_Marshal h = json_Marshal (payload h)"

section \<open>Package httpkit: ErrorEncoder\<close>

subsection \<open>The header map of net/http\<close>

text \<open>
  \<^verbatim>\<open>Header.Get\<close> and \<^verbatim>\<open>Header.Set\<close> of \<^verbatim>\<open>net/http\<close> work on the canonical form of the key,
  \<^verbatim>\<open>textproto.CanonicalMIMEHeaderKey\<close>: a key with a byte that is not a token character of
  RFC 7230 is left as it is; in any other key the first letter and every letter after a
  hyphen are made upper case and all other letters lower case. The standard library is
  not part of the repository; the functions below follow its documentation.
\<close>

definition validHeaderFieldByte :: "char \<Rightarrow> bool" where
  "validHeaderFieldByte c =
     (let n = (of_char c :: nat) in
      (48 \<le> n \<and> n \<le> 57) \<or> (65 \<le> n \<and> n \<le> 90) \<or> (97 \<le> n \<and> n \<le> 122) \<or>
      c \<in> set ''!#$%&*+-.^_`|~'' \<or> n = 39)"

fun canonicalize :: "bool \<Rightarrow> string \<Rightarrow> string" where
  "canonicalize upper [] = []"
| "canonicalize upper (c # cs) =
     (let n = (of_char c :: nat);
          c' = (if upper \<and> 97 \<le> n \<and> n \<le> 122 then char_of (n - 32)
                else if \<not> upper \<and> 65 \<le> n \<and> n \<le> 90 then char_of (n + 32)
                else c)
      in c' # canonicalize (c' = CHR ''-'') cs)"

definition CanonicalMIMEHeaderKey :: "string \<Rightarrow> string" where
  "CanonicalMIMEHeaderKey s =
     (if list_all validHeaderFieldByte s then canonicalize True s else s)"

text \<open>\<^verbatim>\<open>Get\<close>: the first value under the canonical key, the empty string when there is none.\<close>

definition Header_Get :: "Header \<Rightarrow> string \<Rightarrow> string" where
  "Header_Get h key =
     (case map_of h (CanonicalMIMEHeaderKey key) of
        None \<Rightarrow> []
      | Some [] \<Rightarrow> []
      | Some (v # vs) \<Rightarrow> v)"

text \<open>
  The header map of the response is only written by key, never ranged over: it is a map.
  \<^verbatim>\<open>Set\<close> replaces whatever is under the canonical key by the single value.
\<close>

definition Header_Set ::
  "(string \<rightharpoonup> string list) \<Rightarrow> string \<Rightarrow> string \<Rightarrow> (string \<rightharpoonup> string list)" where
  "Header_Set h key v = h(CanonicalMIMEHeaderKey key \<mapsto> [v])"

subsection \<open>The response writer\<close>

text \<open>
  \<^verbatim>\<open>http.ResponseWriter\<close> is an interface: what an implementation does with a call is not
  the encoder's. The model keeps the header map that \<^verbatim>\<open>w.Header()\<close> returns and the calls
  of \<^verbatim>\<open>WriteHeader\<close> and \<^verbatim>\<open>Write\<close> that the encoder makes, in their order. The result of
  \<^verbatim>\<open>Write\<close> is dropped by the source.
\<close>

datatype call = WriteHeader int | Write bytes

record ResponseWriter =
  Header :: "string \<rightharpoonup> string list"
  calls :: "call list"

definition w_Header_Set :: "string \<Rightarrow> string \<Rightarrow> ResponseWriter \<Rightarrow> ResponseWriter" where
  "w_Header_Set key v w = w\<lparr>Header := Header_Set (Header w) key v\<rparr>"

definition w_WriteHeader :: "int \<Rightarrow> ResponseWriter \<Rightarrow> ResponseWriter" where
  "w_WriteHeader code w = w\<lparr>calls := calls w @ [WriteHeader code]\<rparr>"

definition w_Write :: "bytes \<Rightarrow> ResponseWriter \<Rightarrow> ResponseWriter" where
  "w_Write b w = w\<lparr>calls := calls w @ [Write b]\<rparr>"

subsection \<open>The error value\<close>

text \<open>
  A gRPC status has a code, a message and a list of details. \<^verbatim>\<open>Details()\<close> returns a slice
  of \<^verbatim>\<open>interface{}\<close>: by the documentation of \<^verbatim>\<open>google.golang.org/grpc/status\<close>, a detail that
  cannot be decoded is the decoding error, put in the place of the detail. So an element
  is either a \<^verbatim>\<open>proto.Message\<close> or a value that is none; the source asserts the type of the
  first element at run time.
\<close>

datatype 'm detail = ProtoMessage 'm | NotProtoMessage string

record 'm Status =
  Status_Code :: Code
  Status_Message :: string
  Status_Details :: "'m detail list"

text \<open>
  The encoder takes an \<^verbatim>\<open>error\<close>, an interface value, and finds out at run time what it
  can do. The model of the value is what the encoder observes of it:
  \<^item> \<open>Error_string\<close>: the result of \<^verbatim>\<open>err.Error()\<close>;
  \<^item> \<open>Headerer\<close>: \<^verbatim>\<open>err.(httptransport.Headerer)\<close>, with the result of \<^verbatim>\<open>Headers()\<close>;
  \<^item> \<open>StatusCoder\<close>: \<^verbatim>\<open>err.(httptransport.StatusCoder)\<close>, with the result of \<^verbatim>\<open>StatusCode()\<close>;
  \<^item> \<open>FromError\<close>: \<^verbatim>\<open>status.FromError(err)\<close>, \<^term>\<open>Some\<close> of the status when \<^verbatim>\<open>ok\<close> is true;
  \<^item> \<open>Marshaler\<close>: \<^verbatim>\<open>err.(json.Marshaler)\<close>, with the two results of \<^verbatim>\<open>MarshalJSON()\<close>.

  \<^verbatim>\<open>status.FromError\<close> is true for a \<^verbatim>\<open>nil\<close> error as well, with a \<^verbatim>\<open>nil\<close> status, whose
  methods return the code 0, the empty message and no details; every type assertion on
  \<^verbatim>\<open>nil\<close> is false. The \<^verbatim>\<open>nil\<close> error is the value with that status and no capability.
\<close>

record 'm error_value =
  Error_string :: string
  Headerer :: "Header option"
  StatusCoder :: "int option"
  FromError :: "'m Status option"
  Marshaler :: "(bytes \<times> go_error) option"

text \<open>
  A \<^verbatim>\<open>*HttpError\<close> as an \<^verbatim>\<open>error\<close>: it has the methods \<^verbatim>\<open>Error\<close>, \<^verbatim>\<open>StatusCode\<close>, \<^verbatim>\<open>Headers\<close>
  and \<^verbatim>\<open>MarshalJSON\<close>, and no \<^verbatim>\<open>GRPCStatus\<close>.
\<close>

definition HttpError_as_error ::
  "('p \<Rightarrow> bytes \<times> go_error) \<Rightarrow> 'p HttpError \<Rightarrow> 'm error_value" where
  "HttpError_as_error json_Marshal h =
     \<lparr>Error_string = HttpError_Error h,
      Headerer = Some (HttpError_Headers h),
      StatusCoder = Some (HttpError_StatusCode h),
      FromError = None,
      Marshaler = Some (HttpError_MarshalJSON json_Marshal h)\<rparr>"

subsection \<open>The marshalers\<close>

text \<open>
  \<^verbatim>\<open>protojson.MarshalOptions.Marshal\<close> and \<^verbatim>\<open>json.Marshal\<close> are library functions with two
  results, the bytes and an error. They are parameters of the encoder. The source sets
  one option, \<^verbatim>\<open>UseProtoNames\<close>, and leaves the others at their zero value.
\<close>

record MarshalOptions =
  UseProtoNames :: bool

record errorWrapper =
  Message :: string

record 'm marshalers =
  protojson_Marshal :: "MarshalOptions \<Rightarrow> 'm \<Rightarrow> bytes \<times> go_error"
  json_Marshal :: "errorWrapper \<Rightarrow> bytes \<times> go_error"

definition JSONContentType :: string where
  "JSONContentType = ''application/json; charset=utf-8''"

subsection \<open>ErrorEncoder\<close>

text \<open>
  The body of the function in the order of the source: the content type (line 38), the
  loop over the keys of the error's headers (lines 39 to 43), the status (lines 44 to 47)
  and the body (lines 48 to 67), then the two writes (lines 69 and 70). The assertion
  \<^verbatim>\<open>e.Details()[0].(proto.Message)\<close> has no \<^verbatim>\<open>ok\<close> result: it panics on a first detail that
  is no \<^verbatim>\<open>proto.Message\<close>, before anything is written. Every error result of a marshaler
  is dropped, but for the one of the inner \<^verbatim>\<open>MarshalJSON\<close> of the last branch.
\<close>

definition ErrorEncoder ::
  "'m marshalers \<Rightarrow> 'c \<Rightarrow> 'm error_value \<Rightarrow> ResponseWriter \<Rightarrow> panic + ResponseWriter" where
  "ErrorEncoder lib ctx err w =
     (let w = w_Header_Set ''Content-Type'' JSONContentType w;
          w = (case Headerer err of
                 Some hs \<Rightarrow> fold (\<lambda>k. w_Header_Set k (Header_Get hs k)) (map fst hs) w
               | None \<Rightarrow> w);
          code = StatusInternalServerError;
          code = (case StatusCoder err of Some sc \<Rightarrow> sc | None \<Rightarrow> code);
          r = (case FromError err of
                 Some e \<Rightarrow>
                   (let code = httpStatusFromCode (Status_Code e) in
                    if length (Status_Details e) > 0 then
                      (case Status_Details e ! 0 of
                         ProtoMessage m \<Rightarrow>
                           Inr (code, fst (protojson_Marshal lib \<lparr>UseProtoNames = True\<rparr> m))
                       | NotProtoMessage x \<Rightarrow> Inl TypeAssertionFailed)
                    else Inr (code, fst (json_Marshal lib \<lparr>Message = Status_Message e\<rparr>)))
               | None \<Rightarrow>
                   (case Marshaler err of
                      Some marshaler \<Rightarrow> Inr (code, fst marshaler)
                    | None \<Rightarrow>
                        (let body = fst (json_Marshal lib \<lparr>Message = Error_string err\<rparr>);
                             body = (case Marshaler err of
                                       Some (jsonBody, marshalErr) \<Rightarrow>
                                         if marshalErr = None then jsonBody else body
                                     | None \<Rightarrow> body)
                         in Inr (code, body))))
      in case r of
           Inl p \<Rightarrow> Inl p
         | Inr (code, body) \<Rightarrow> Inr (w_Write body (w_WriteHeader code w)))"

text \<open>
  The variant of the encoder whose last branch only marshals the wrapper of
  \<^verbatim>\<open>err.Error()\<close>, without the second look for a \<^verbatim>\<open>json.Marshaler\<close>. Everything else is
  the text of \<open>ErrorEncoder\<close>.
\<close>

definition ErrorEncoder_simplified ::
  "'m marshalers \<Rightarrow> 'c \<Rightarrow> 'm error_value \<Rightarrow> ResponseWriter \<Rightarrow> panic + ResponseWriter" where
  "ErrorEncoder_simplified lib ctx err w =
     (let w = w_Header_Set ''Content-Type'' JSONContentType w;
          w = (case Headerer err of
                 Some hs \<Rightarrow> fold (\<lambda>k. w_Header_Set k (Header_Get hs k)) (map fst hs) w
               | None \<Rightarrow> w);
          code = StatusInternalServerError;
          code = (case StatusCoder err of Some sc \<Rightarrow> sc | None \<Rightarrow> code);
          r = (case FromError err of
                 Some e \<Rightarrow>
                   (let code = httpStatusFromCode (Status_Code e) in
                    if length (Status_Details e) > 0 then
                      (case Status_Details e ! 0 of
                         ProtoMessage m \<Rightarrow>
                           Inr (code, fst (protojson_Marshal lib \<lparr>UseProtoNames = True\<rparr> m))
                       | NotProtoMessage x \<Rightarrow> Inl TypeAssertionFailed)
                    else Inr (code, fst (json_Marshal lib \<lparr>Message = Status_Message e\<rparr>)))
               | None \<Rightarrow>
                   (case Marshaler err of
                      Some marshaler \<Rightarrow> Inr (code, fst marshaler)
                    | None \<Rightarrow>
                        Inr (code, fst (json_Marshal lib \<lparr>Message = Error_string err\<rparr>))))
      in case r of
           Inl p \<Rightarrow> Inl p
         | Inr (code, body) \<Rightarrow> Inr (w_Write body (w_WriteHeader code w)))"

section \<open>Package grpckit: MetadataToContext\<close>

text \<open>
  A context is the chain of the values put into it, the latest first; \<^verbatim>\<open>Value\<close> finds the
  latest value of a key. Keys and values are \<^verbatim>\<open>interface{}\<close>: a key is a
  \<^verbatim>\<open>request.ContextKey\<close> or something else, a value is a string or something else.
\<close>

text \<open>
  Modelled from the spec: the key type \<^verbatim>\<open>ContextKey\<close> of the package \<^verbatim>\<open>request\<close> of this
  repository, whose source is missing. \<^verbatim>\<open>request.ContextKey(k)\<close> converts the metadata key
  to it: the entry is "keyed by that metadata key", so the constructor carries the key.
\<close>

datatype 'a key = ContextKey string | OtherKey 'a

datatype 'b any = String string | Other 'b

type_synonym ('a, 'b) Context = "('a key \<times> 'b any) list"

definition WithValue :: "('a, 'b) Context \<Rightarrow> 'a key \<Rightarrow> 'b any \<Rightarrow> ('a, 'b) Context" where
  "WithValue ctx k v = (k, v) # ctx"

definition Value :: "('a, 'b) Context \<Rightarrow> 'a key \<Rightarrow> 'b any option" where
  "Value ctx k = map_of ctx k"

text \<open>
  \<^verbatim>\<open>metadata.MD\<close> is a Go map from a key to a slice of strings, ranged over in an order
  that Go leaves open: an association list in the order of the iteration. The source
  tells a \<^verbatim>\<open>nil\<close> slice from any other, so a slice is an option, \<^term>\<open>None\<close> for \<^verbatim>\<open>nil\<close>;
  \<^term>\<open>Some []\<close> is the empty slice that is not \<^verbatim>\<open>nil\<close>, as \<^verbatim>\<open>[]string{}\<close> is. Reading \<^verbatim>\<open>v[0]\<close>
  of an empty slice panics.
\<close>

type_synonym MD = "(string \<times> string list option) list"

fun MetadataToContext :: "('a, 'b) Context \<Rightarrow> MD \<Rightarrow> panic + ('a, 'b) Context" where
  "MetadataToContext ctx [] = Inr ctx"
| "MetadataToContext ctx ((k, v) # md) =
     (case v of
        None \<Rightarrow> MetadataToContext ctx md
      | Some [] \<Rightarrow> Inl IndexOutOfRange
      | Some (v0 # vs) \<Rightarrow> MetadataToContext (WithValue ctx (ContextKey k) (String v0)) md)"

section \<open>Auxiliary definitions\<close>

text \<open>
  The assertion of line 53 holds on an error value: \<^verbatim>\<open>status.FromError\<close> is false, or the
  status has no detail, or its first detail is a \<^verbatim>\<open>proto.Message\<close>.
\<close>

definition detail_assertion_holds :: "'m error_value \<Rightarrow> bool" where
  "detail_assertion_holds err =
     (case FromError err of
        None \<Rightarrow> True
      | Some e \<Rightarrow>
          (case Status_Details e of
             [] \<Rightarrow> True
           | ProtoMessage m # ds \<Rightarrow> True
           | NotProtoMessage x # ds \<Rightarrow> False))"

text \<open>
  Values on which the theorems are run. The marshalers of \<open>test_lib\<close> stand for the
  library's: they put a tag before their input, and the tag tells which option was set.
  The payload of the two \<^verbatim>\<open>HttpError\<close> values is a string that is marshalled to itself.
\<close>

definition test_lib :: "string marshalers" where
  "test_lib =
     \<lparr>protojson_Marshal =
        (\<lambda>opts m. ((if UseProtoNames opts then ''proto-names:'' else ''json-names:'') @ m, None)),
      json_Marshal = (\<lambda>v. (''message:'' @ Message v, None))\<rparr>"

definition new_ResponseWriter :: ResponseWriter where
  "new_ResponseWriter = \<lparr>Header = Map.empty, calls = []\<rparr>"

definition plain_error :: "string error_value" where
  "plain_error =
     \<lparr>Error_string = ''boom'', Headerer = None, StatusCoder = None, FromError = None,
      Marshaler = None\<rparr>"

definition teapot :: "string error_value" where
  "teapot = HttpError_as_error (\<lambda>p. (p, None))
     (NewHttpError 418 ''short and stout'' [(''X-Test'', [''v1''])])"

definition text_error :: "string error_value" where
  "text_error = HttpError_as_error (\<lambda>p. (p, None))
     (NewHttpError 400 ''bad'' [(''Content-Type'', [''text/plain''])])"

definition not_found :: "string Status" where
  "not_found =
     \<lparr>Status_Code = codes_NotFound, Status_Message = ''no such user'',
      Status_Details = [ProtoMessage ''user_id:42'']\<rparr>"

definition detailed_error :: "string error_value" where
  "detailed_error =
     \<lparr>Error_string = ''rpc error'', Headerer = None, StatusCoder = None,
      FromError = Some not_found, Marshaler = None\<rparr>"

definition undecoded :: "string Status" where
  "undecoded =
     \<lparr>Status_Code = codes_NotFound, Status_Message = ''no such user'',
      Status_Details = [NotProtoMessage ''unknown type of the detail'']\<rparr>"

definition undecoded_error :: "string error_value" where
  "undecoded_error =
     \<lparr>Error_string = ''rpc error'', Headerer = None, StatusCoder = None,
      FromError = Some undecoded, Marshaler = None\<rparr>"

definition undecoded_teapot :: "string error_value" where
  "undecoded_teapot =
     \<lparr>Error_string = ''rpc error'', Headerer = None, StatusCoder = Some 418,
      FromError = Some undecoded, Marshaler = None\<rparr>"

definition second_detail_decoded :: "string Status" where
  "second_detail_decoded =
     \<lparr>Status_Code = codes_NotFound, Status_Message = ''no such user'',
      Status_Details = [NotProtoMessage ''unknown type of the detail'',
                        ProtoMessage ''user_id:42'']\<rparr>"

definition second_detail_error :: "string error_value" where
  "second_detail_error =
     \<lparr>Error_string = ''rpc error'', Headerer = None, StatusCoder = None,
      FromError = Some second_detail_decoded, Marshaler = None\<rparr>"

section \<open>Theorems\<close>

lemmas codes_defs =
  codes_OK_def codes_Canceled_def codes_Unknown_def codes_InvalidArgument_def
  codes_DeadlineExceeded_def codes_NotFound_def codes_AlreadyExists_def
  codes_PermissionDenied_def codes_ResourceExhausted_def codes_FailedPrecondition_def
  codes_Aborted_def codes_OutOfRange_def codes_Unimplemented_def codes_Internal_def
  codes_Unavailable_def codes_DataLoss_def codes_Unauthenticated_def

lemmas http_defs =
  StatusOK_def StatusBadRequest_def StatusUnauthorized_def StatusForbidden_def
  StatusNotFound_def StatusRequestTimeout_def StatusConflict_def StatusTooManyRequests_def
  StatusInternalServerError_def StatusNotImplemented_def StatusServiceUnavailable_def
  StatusGatewayTimeout_def

subsection \<open>The status table\<close>

text \<open>
  C1. Each of the seventeen codes of the enumeration has the HTTP status of the table of
  the specification, and every other 32-bit code value has status 500. The function has
  no argument but the code and no failing branch.
\<close>

theorem httpStatusFromCode_table:
  "httpStatusFromCode codes_OK = 200 \<and>
   httpStatusFromCode codes_Canceled = 408 \<and>
   httpStatusFromCode codes_Unknown = 500 \<and>
   httpStatusFromCode codes_InvalidArgument = 400 \<and>
   httpStatusFromCode codes_DeadlineExceeded = 504 \<and>
   httpStatusFromCode codes_NotFound = 404 \<and>
   httpStatusFromCode codes_AlreadyExists = 409 \<and>
   httpStatusFromCode codes_PermissionDenied = 403 \<and>
   httpStatusFromCode codes_Unauthenticated = 401 \<and>
   httpStatusFromCode codes_ResourceExhausted = 429 \<and>
   httpStatusFromCode codes_FailedPrecondition = 400 \<and>
   httpStatusFromCode codes_Aborted = 409 \<and>
   httpStatusFromCode codes_OutOfRange = 400 \<and>
   httpStatusFromCode codes_Unimplemented = 501 \<and>
   httpStatusFromCode codes_Internal = 500 \<and>
   httpStatusFromCode codes_Unavailable = 503 \<and>
   httpStatusFromCode codes_DataLoss = 500 \<and>
   (\<forall>code. code \<notin> {codes_OK, codes_Canceled, codes_Unknown, codes_InvalidArgument,
        codes_DeadlineExceeded, codes_NotFound, codes_AlreadyExists, codes_PermissionDenied,
        codes_Unauthenticated, codes_ResourceExhausted, codes_FailedPrecondition,
        codes_Aborted, codes_OutOfRange, codes_Unimplemented, codes_Internal,
        codes_Unavailable, codes_DataLoss} \<longrightarrow> httpStatusFromCode code = 500)"
  by (simp add: httpStatusFromCode_def codes_defs http_defs)

theorem httpStatusFromCode_table_witness:
  "(17 :: Code) \<notin> {codes_OK, codes_Canceled, codes_Unknown, codes_InvalidArgument,
        codes_DeadlineExceeded, codes_NotFound, codes_AlreadyExists, codes_PermissionDenied,
        codes_Unauthenticated, codes_ResourceExhausted, codes_FailedPrecondition,
        codes_Aborted, codes_OutOfRange, codes_Unimplemented, codes_Internal,
        codes_Unavailable, codes_DataLoss} \<and> httpStatusFromCode 17 = 500"
proof -
  have outside: "(17 :: Code) \<notin> {codes_OK, codes_Canceled, codes_Unknown,
        codes_InvalidArgument, codes_DeadlineExceeded, codes_NotFound, codes_AlreadyExists,
        codes_PermissionDenied, codes_Unauthenticated, codes_ResourceExhausted,
        codes_FailedPrecondition, codes_Aborted, codes_OutOfRange, codes_Unimplemented,
        codes_Internal, codes_Unavailable, codes_DataLoss}"
    by (simp add: codes_defs)
  from httpStatusFromCode_table have "httpStatusFromCode 17 = 500"
    using outside by blast
  with outside show ?thesis by simp
qed

subsection \<open>HttpError\<close>

text \<open>
  C9. For every status, payload and header map, \<^verbatim>\<open>NewHttpError\<close> builds a value (there is
  no check of the status and no failing branch), whose \<^verbatim>\<open>StatusCode()\<close> is the status
  given and whose \<^verbatim>\<open>Error()\<close> is the fixed text \<^verbatim>\<open>HttpError\<close>, whatever the payload and the
  headers.
\<close>

theorem NewHttpError_StatusCode_Error:
  "HttpError_StatusCode (NewHttpError s p h) = s \<and>
   HttpError_Error (NewHttpError s p h) = ''HttpError''"
  by (simp add: HttpError_StatusCode_def HttpError_Error_def NewHttpError_def)

subsection \<open>ErrorEncoder: the writes and the headers\<close>

lemma calls_w_Header_Set: "calls (w_Header_Set k v w) = calls w"
  by (simp add: w_Header_Set_def)

lemma calls_fold_Header_Set: "calls (fold (\<lambda>k. w_Header_Set k (f k)) ks w) = calls w"
  by (induction ks arbitrary: w) (simp_all add: calls_w_Header_Set)

lemma Header_fold_Header_Set_other:
  "c \<notin> CanonicalMIMEHeaderKey ` set ks \<Longrightarrow>
   Header (fold (\<lambda>k. w_Header_Set k (f k)) ks w) c = Header w c"
  by (induction ks arbitrary: w) (auto simp add: w_Header_Set_def Header_Set_def)

lemma canon_Content_Type: "CanonicalMIMEHeaderKey ''Content-Type'' = ''Content-Type''"
  by code_simp

lemma canon_X_Test: "CanonicalMIMEHeaderKey ''X-Test'' = ''X-Test''"
  by code_simp

text \<open>
  The encoder returns, with its two writes made, exactly on the error values on which the
  assertion of line 53 holds; on the others it panics.
\<close>

lemma ErrorEncoder_returns:
  "detail_assertion_holds err \<longleftrightarrow> (\<exists>w'. ErrorEncoder lib ctx err w = Inr w')"
  by (auto simp add: ErrorEncoder_def Let_def detail_assertion_holds_def
      split: option.splits prod.splits list.splits detail.splits)

lemma ErrorEncoder_panics:
  "\<not> detail_assertion_holds err \<longleftrightarrow> ErrorEncoder lib ctx err w = Inl TypeAssertionFailed"
  by (auto simp add: ErrorEncoder_def Let_def detail_assertion_holds_def
      split: option.splits prod.splits list.splits detail.splits)

subsection \<open>ErrorEncoder: the status\<close>

text \<open>
  Where the encoder returns, the status of a status error is the one of the table, also
  when the error has a status of its own: line 50 overwrites what line 46 has set.
\<close>

lemma ErrorEncoder_status_error_wins:
  assumes "StatusCoder err = Some s" and "FromError err = Some e"
    and "detail_assertion_holds err"
  shows "\<exists>w' body. ErrorEncoder lib ctx err w = Inr w' \<and>
           calls w' = calls w @ [WriteHeader (httpStatusFromCode (Status_Code e)), Write body]"
  using assms
  by (auto simp add: ErrorEncoder_def Let_def w_Write_def w_WriteHeader_def calls_fold_Header_Set
      calls_w_Header_Set detail_assertion_holds_def
      split: option.splits prod.splits list.splits detail.splits)

text \<open>
  C2. An error value with both a status of its own (418) and a gRPC status (not found),
  whose first detail could not be decoded: the encoder panics at the assertion of line 53
  and writes no status at all, neither 404 nor 418.
\<close>

theorem ErrorEncoder_both_capabilities_panics:
  "StatusCoder undecoded_teapot = Some 418 \<and> FromError undecoded_teapot = Some undecoded \<and>
   ErrorEncoder test_lib () undecoded_teapot new_ResponseWriter = Inl TypeAssertionFailed"
  by (simp add: ErrorEncoder_def Let_def undecoded_teapot_def undecoded_def)

text \<open>
  C3. The encoder does not return on every error value: on a status error whose first
  detail is no \<^verbatim>\<open>proto.Message\<close> the assertion of line 53 panics, and no response is written.
\<close>

theorem ErrorEncoder_undecoded_detail_panics:
  "ErrorEncoder test_lib () undecoded_error new_ResponseWriter = Inl TypeAssertionFailed"
  by (simp add: ErrorEncoder_def Let_def undecoded_error_def undecoded_def)

text \<open>
  C7. An error value with no status of its own, no gRPC status and no \<^verbatim>\<open>MarshalJSON\<close>: the
  encoder returns, having written the status 500 and then, as the body, the bytes that
  \<^verbatim>\<open>json.Marshal\<close> gives for the wrapper of \<^verbatim>\<open>err.Error()\<close>.
\<close>

theorem ErrorEncoder_default:
  assumes "StatusCoder err = None" and "FromError err = None" and "Marshaler err = None"
  shows "\<exists>w'. ErrorEncoder lib ctx err w = Inr w' \<and>
           calls w' = calls w @ [WriteHeader 500,
                                 Write (fst (json_Marshal lib \<lparr>Message = Error_string err\<rparr>))]"
  using assms
  by (simp add: ErrorEncoder_def Let_def w_Write_def w_WriteHeader_def calls_fold_Header_Set
      calls_w_Header_Set StatusInternalServerError_def split: option.splits)

theorem ErrorEncoder_default_witness:
  "StatusCoder plain_error = None \<and> FromError plain_error = None \<and>
   Marshaler plain_error = None \<and>
   (\<exists>w'. ErrorEncoder test_lib () plain_error new_ResponseWriter = Inr w' \<and>
      calls w' = [WriteHeader 500, Write ''message:boom''])"
  using ErrorEncoder_default [of plain_error test_lib "()" new_ResponseWriter]
  by (simp add: plain_error_def test_lib_def new_ResponseWriter_def)

text \<open>
  C8. An error value with a status of its own and no gRPC status: the encoder returns,
  having written that status and then, as the body, the bytes of the error's
  \<^verbatim>\<open>MarshalJSON\<close> when it has one, and the bytes of the wrapper of \<^verbatim>\<open>err.Error()\<close> otherwise.
\<close>

theorem ErrorEncoder_custom_status:
  assumes "StatusCoder err = Some s" and "FromError err = None"
  shows "\<exists>w'. ErrorEncoder lib ctx err w = Inr w' \<and>
           calls w' = calls w @ [WriteHeader s,
             Write (case Marshaler err of
                      Some (jsonBody, marshalErr) \<Rightarrow> jsonBody
                    | None \<Rightarrow> fst (json_Marshal lib \<lparr>Message = Error_string err\<rparr>))]"
  using assms
  by (simp add: ErrorEncoder_def Let_def w_Write_def w_WriteHeader_def calls_fold_Header_Set
      calls_w_Header_Set split: option.splits prod.splits)

theorem ErrorEncoder_custom_status_witness:
  "StatusCoder teapot = Some 418 \<and> FromError teapot = None \<and>
   (\<exists>w'. ErrorEncoder test_lib () teapot new_ResponseWriter = Inr w' \<and>
      calls w' = [WriteHeader 418, Write ''short and stout''])"
  using ErrorEncoder_custom_status [of teapot 418 test_lib "()" new_ResponseWriter]
  by (simp add: teapot_def test_lib_def new_ResponseWriter_def HttpError_as_error_def
      NewHttpError_def HttpError_StatusCode_def HttpError_MarshalJSON_def)

subsection \<open>ErrorEncoder: the body of a status error\<close>

text \<open>
  Where the first detail of a status error is a \<^verbatim>\<open>proto.Message\<close> \<open>D\<close>, the encoder returns,
  and the body it writes is the bytes that \<^verbatim>\<open>protojson\<close> gives for \<open>D\<close> with the option
  \<^verbatim>\<open>UseProtoNames\<close> set. The message of the status has no part in it: with any other
  message the encoder returns the same writer.
\<close>

lemma first_detail_message_body:
  assumes "FromError err = Some e" and "Status_Details e = ProtoMessage D # ds"
  shows "\<exists>w'. ErrorEncoder lib ctx err w = Inr w' \<and>
           calls w' = calls w @ [WriteHeader (httpStatusFromCode (Status_Code e)),
             Write (fst (protojson_Marshal lib \<lparr>UseProtoNames = True\<rparr> D))] \<and>
           ErrorEncoder lib ctx (err\<lparr>FromError := Some (e\<lparr>Status_Message := msg\<rparr>)\<rparr>) w = Inr w'"
  using assms
  by (simp add: ErrorEncoder_def Let_def w_Write_def w_WriteHeader_def calls_fold_Header_Set
      calls_w_Header_Set split: option.splits prod.splits)

lemma first_detail_message_body_run:
  "FromError detailed_error = Some not_found \<and>
   Status_Details not_found = ProtoMessage ''user_id:42'' # [] \<and>
   (\<exists>w'. ErrorEncoder test_lib () detailed_error new_ResponseWriter = Inr w' \<and>
      calls w' = [WriteHeader 404, Write ''proto-names:user_id:42''] \<and>
      ErrorEncoder test_lib ()
        (detailed_error\<lparr>FromError := Some (not_found\<lparr>Status_Message := ''other text''\<rparr>)\<rparr>)
        new_ResponseWriter = Inr w')"
  using first_detail_message_body [of detailed_error not_found "''user_id:42''" "[]" test_lib "()"
      new_ResponseWriter "''other text''"]
  by (simp add: detailed_error_def not_found_def test_lib_def new_ResponseWriter_def
      httpStatusFromCode_def codes_defs http_defs)

text \<open>
  C5. A status error with two details, of which the second is a structured payload and
  the first could not be decoded: line 51 finds a detail, the assertion of line 53 on the
  first one panics, and no body is written, whatever the message. The same holds when the
  only detail could not be decoded.
\<close>

theorem ErrorEncoder_detail_body_panics:
  "FromError second_detail_error = Some second_detail_decoded \<and>
   Status_Details second_detail_decoded =
     [NotProtoMessage ''unknown type of the detail'', ProtoMessage ''user_id:42''] \<and>
   ErrorEncoder test_lib () second_detail_error new_ResponseWriter = Inl TypeAssertionFailed \<and>
   ErrorEncoder test_lib ()
     (second_detail_error\<lparr>FromError := Some (second_detail_decoded
        \<lparr>Status_Details := [NotProtoMessage ''unknown type of the detail'']\<rparr>)\<rparr>)
     new_ResponseWriter = Inl TypeAssertionFailed"
  by (simp add: ErrorEncoder_def Let_def second_detail_error_def second_detail_decoded_def)

subsection \<open>ErrorEncoder: the content type\<close>

text \<open>
  C6, amended. On every error value on which the assertion of line 53 holds, the encoder
  returns and the \<^verbatim>\<open>Content-Type\<close> of the response is the JSON content type, unless the
  error's own headers have a key whose canonical form is \<^verbatim>\<open>Content-Type\<close>.
\<close>

theorem ErrorEncoder_content_type:
  assumes "detail_assertion_holds err"
    and "''Content-Type'' \<notin> set (map CanonicalMIMEHeaderKey
           (case Headerer err of Some hs \<Rightarrow> map fst hs | None \<Rightarrow> []))"
  shows "\<exists>w'. ErrorEncoder lib ctx err w = Inr w' \<and>
           Header w' ''Content-Type'' = Some [JSONContentType]"
proof -
  from assms(1) obtain w' where w': "ErrorEncoder lib ctx err w = Inr w'"
    using ErrorEncoder_returns [of err lib ctx w] by auto
  let ?w1 = "w_Header_Set ''Content-Type'' JSONContentType w"
  have h1: "Header ?w1 ''Content-Type'' = Some [JSONContentType]"
    by (simp add: w_Header_Set_def Header_Set_def canon_Content_Type)
  let ?w2 = "case Headerer err of
               Some hs \<Rightarrow> fold (\<lambda>k. w_Header_Set k (Header_Get hs k)) (map fst hs) ?w1
             | None \<Rightarrow> ?w1"
  have h2: "Header ?w2 ''Content-Type'' = Some [JSONContentType]"
  proof (cases "Headerer err")
    case None
    with h1 show ?thesis by simp
  next
    case (Some hs)
    with assms(2) have "''Content-Type'' \<notin> CanonicalMIMEHeaderKey ` set (map fst hs)"
      by (simp add: image_image)
    from Header_fold_Header_Set_other [OF this] h1 Some show ?thesis by simp
  qed
  have "Header w' = Header ?w2"
    using w'
    by (auto simp add: ErrorEncoder_def Let_def w_Write_def w_WriteHeader_def
        split: option.splits prod.splits sum.splits if_splits detail.splits)
  with h2 w' show ?thesis by simp
qed

theorem ErrorEncoder_content_type_witness:
  "detail_assertion_holds teapot \<and>
   ''Content-Type'' \<notin> set (map CanonicalMIMEHeaderKey
      (case Headerer teapot of Some hs \<Rightarrow> map fst hs | None \<Rightarrow> [])) \<and>
   (\<exists>w'. ErrorEncoder test_lib () teapot new_ResponseWriter = Inr w' \<and>
      Header w' ''Content-Type'' = Some [''application/json; charset=utf-8''])"
proof -
  have a: "detail_assertion_holds teapot"
    by (simp add: detail_assertion_holds_def teapot_def HttpError_as_error_def)
  have b: "''Content-Type'' \<notin> set (map CanonicalMIMEHeaderKey
      (case Headerer teapot of Some hs \<Rightarrow> map fst hs | None \<Rightarrow> []))"
    by (simp add: teapot_def HttpError_as_error_def HttpError_Headers_def NewHttpError_def
        canon_X_Test)
  from ErrorEncoder_content_type [OF a b, of test_lib "()" new_ResponseWriter] a b
  show ?thesis by (simp add: JSONContentType_def)
qed

text \<open>
  The content type is not the JSON one on every error value. An \<^verbatim>\<open>HttpError\<close> made with the
  header \<^verbatim>\<open>Content-Type: text/plain\<close> has its header copied by the loop of lines 40 to 42,
  after line 38 and over it: the response has the content type \<^verbatim>\<open>text/plain\<close>.
\<close>

theorem Headerer_replaces_content_type:
  "\<not> isl (ErrorEncoder test_lib () text_error new_ResponseWriter) \<and>
   Header (projr (ErrorEncoder test_lib () text_error new_ResponseWriter)) ''Content-Type''
     = Some [''text/plain''] \<and>
   [''text/plain''] \<noteq> [JSONContentType]"
  by (simp add: ErrorEncoder_def Let_def text_error_def HttpError_as_error_def
      HttpError_Headers_def HttpError_StatusCode_def HttpError_MarshalJSON_def NewHttpError_def
      new_ResponseWriter_def w_Header_Set_def w_Write_def w_WriteHeader_def Header_Set_def
      Header_Get_def canon_Content_Type JSONContentType_def)

subsection \<open>ErrorEncoder: the last branch\<close>

text \<open>
  C10. On every error value and writer the encoder gives what its variant without the
  inner look for a \<^verbatim>\<open>json.Marshaler\<close> gives, panic or writer: the last branch is taken only
  when the assertion \<^verbatim>\<open>err.(json.Marshaler)\<close> of line 58 has failed, and the same assertion
  on the same value at line 62 fails again, so lines 63 to 65 never run.
\<close>

theorem ErrorEncoder_eq_simplified:
  "ErrorEncoder lib ctx err w = ErrorEncoder_simplified lib ctx err w"
  by (simp add: ErrorEncoder_def ErrorEncoder_simplified_def Let_def split: option.splits)

subsection \<open>MetadataToContext\<close>

text \<open>
  The function panics exactly when some key of the metadata has an empty slice that is
  not \<^verbatim>\<open>nil\<close>, wherever the key comes in the iteration.
\<close>

lemma MetadataToContext_panics_iff:
  "MetadataToContext ctx md = Inl p \<longleftrightarrow> p = IndexOutOfRange \<and> (\<exists>k. (k, Some []) \<in> set md)"
proof (induction md arbitrary: ctx)
  case Nil
  show ?case by simp
next
  case (Cons kv md)
  obtain k v where kv: "kv = (k, v)" by (cases kv)
  show ?case
  proof (cases v)
    case None
    with kv Cons show ?thesis by simp
  next
    case (Some vs)
    with kv Cons show ?thesis by (cases vs) auto
  qed
qed

text \<open>
  Where it returns, on a map (no key twice), the context has the first value of every key
  with a value, and is as before at the key of a \<^verbatim>\<open>nil\<close> slice and at every other key.
\<close>

lemma MetadataToContext_Value:
  assumes "MetadataToContext ctx md = Inr ctx'" and "distinct (map fst md)"
  shows "Value ctx' (ContextKey k) =
           (case map_of md k of
              Some (Some (v0 # vs)) \<Rightarrow> Some (String v0)
            | _ \<Rightarrow> Value ctx (ContextKey k))"
  using assms
proof (induction md arbitrary: ctx)
  case Nil
  then show ?case by simp
next
  case (Cons kv md)
  obtain k0 v where kv: "kv = (k0, v)" by (cases kv)
  from Cons.prems(2) kv have fresh: "map_of md k0 = None" and d: "distinct (map fst md)"
    by (simp_all add: map_of_eq_None_iff)
  show ?case
  proof (cases v)
    case None
    with kv Cons.prems(1) have "MetadataToContext ctx md = Inr ctx'" by simp
    from Cons.IH [OF this d] kv None fresh show ?thesis by simp
  next
    case (Some xs)
    show ?thesis
    proof (cases xs)
      case Nil
      with Some kv Cons.prems(1) show ?thesis by simp
    next
      case (Cons v0 vs)
      with Some kv Cons.prems(1)
      have "MetadataToContext (WithValue ctx (ContextKey k0) (String v0)) md = Inr ctx'"
        by simp
      from Cons.IH [OF this d] kv Some Cons fresh show ?thesis
        by (auto simp add: WithValue_def Value_def split: option.splits list.splits)
    qed
  qed
qed

lemma MetadataToContext_nil_slice:
  "MetadataToContext ([] :: (unit, unit) Context)
     [(''user-id'', Some [''42'']), (''empty-key'', None)]
     = Inr [(ContextKey ''user-id'', String ''42'')]"
  by (simp add: WithValue_def)

text \<open>
  C4. The metadata of the specification's example, \<^verbatim>\<open>user-id\<close> with the one value 42 and
  \<^verbatim>\<open>empty-key\<close> with an empty list of values, the empty list being the slice \<^verbatim>\<open>[]string{}\<close>:
  the guard \<^verbatim>\<open>v != nil\<close> lets the empty slice through and \<^verbatim>\<open>v[0]\<close> panics, in either order
  of the iteration. No context is returned.
\<close>

theorem MetadataToContext_empty_slice_panics:
  "MetadataToContext ([] :: (unit, unit) Context)
     [(''user-id'', Some [''42'']), (''empty-key'', Some [])] = Inl IndexOutOfRange \<and>
   MetadataToContext ([] :: (unit, unit) Context)
     [(''empty-key'', Some []), (''user-id'', Some [''42''])] = Inl IndexOutOfRange"
  by simp

end
